theory Spec2Isabelle
  imports Complex_Main "HOL-Library.Word" "HOL-Library.Monad_Syntax"
begin

section \<open>JavaScript strings and values\<close>

text \<open>
  A JavaScript string is a sequence of 16-bit code units. \<open>js\<close> turns an ASCII literal
  into such a string.
\<close>

type_synonym jsstring = "16 word list"

definition js :: "string \<Rightarrow> jsstring" where
  "js s = map of_char s"

text \<open>
  \<open>String.prototype.trim\<close> removes leading and trailing WhiteSpace and LineTerminator code
  points: TAB, LF, VT, FF, CR, SP, NBSP, the other space separators (U+1680,
  U+2000..U+200A, U+202F, U+205F, U+3000), LS, PS and ZWNBSP.
\<close>

definition is_whitespace :: "16 word \<Rightarrow> bool" where
  "is_whitespace c =
     (c \<in> set [0x9, 0xA, 0xB, 0xC, 0xD, 0x20, 0xA0, 0x1680, 0x2028, 0x2029, 0x202F,
               0x205F, 0x3000, 0xFEFF]
      \<or> (0x2000 \<le> c \<and> c \<le> 0x200A))"

definition trim :: "jsstring \<Rightarrow> jsstring" where
  "trim s = rev (dropWhile is_whitespace (rev (dropWhile is_whitespace s)))"

text \<open>
  Numbers: a finite value, or one of the three special values. Every finite double is
  a real number; \<open>+0\<close> and \<open>-0\<close> are one value here, as \<open>===\<close> and truthiness do not tell
  them apart. No arithmetic is done on numbers but the truncation in TimeClip.
\<close>

datatype jsnum = Finite real | NaN | PosInfinity | NegInfinity

text \<open>The values that \<open>JSON.parse\<close> can produce, and \<open>undefined\<close>.\<close>

datatype jsval =
    JUndefined
  | JNull
  | JBool bool
  | JNum jsnum
  | JStr jsstring
  | JArr "jsval list"
  | JObj "(jsstring \<times> jsval) list"

text \<open>ToBoolean, as used by \<open>!\<close>, \<open>if\<close> and the filter callbacks.\<close>

fun truthy :: "jsval \<Rightarrow> bool" where
  "truthy JUndefined = False"
| "truthy JNull = False"
| "truthy (JBool b) = b"
| "truthy (JNum n) = (n \<noteq> NaN \<and> n \<noteq> Finite 0)"
| "truthy (JStr s) = (s \<noteq> [])"
| "truthy (JArr xs) = True"
| "truthy (JObj fs) = True"

text \<open>\<open>v === n\<close> for a number \<open>n\<close>: same type, same value, and \<open>NaN\<close> equals nothing.\<close>

definition strict_eq_num :: "jsval \<Rightarrow> jsnum \<Rightarrow> bool" where
  "strict_eq_num v n = (case v of JNum m \<Rightarrow> m = n \<and> n \<noteq> NaN | _ \<Rightarrow> False)"

text \<open>The exceptions that the code can meet; all of them are caught by its try blocks.\<close>

datatype exn = SyntaxError | TypeError | RangeError | StorageError

definition try_bind :: "exn + 'a \<Rightarrow> ('a \<Rightarrow> exn + 'b) \<Rightarrow> exn + 'b" where
  "try_bind m f = (case m of Inl e \<Rightarrow> Inl e | Inr x \<Rightarrow> f x)"

text \<open>\<open>Array.prototype.map\<close> with a callback that may throw: the first exception ends it.\<close>

fun map_exn :: "('a \<Rightarrow> exn + 'b) \<Rightarrow> 'a list \<Rightarrow> exn + 'b list" where
  "map_exn f [] = Inr []"
| "map_exn f (x # xs) =
     (case f x of
        Inl e \<Rightarrow> Inl e
      | Inr y \<Rightarrow> (case map_exn f xs of Inl e \<Rightarrow> Inl e | Inr ys \<Rightarrow> Inr (y # ys)))"

text \<open>
  Reading one of the properties \<open>id\<close>, \<open>text\<close>, \<open>completed\<close>, \<open>createdAt\<close> of a parsed JSON
  value: a TypeError on \<open>null\<close> and \<open>undefined\<close>, the own property of an object, and
  \<open>undefined\<close> otherwise (no built-in prototype defines one of these four names).
\<close>

definition get_prop :: "jsval \<Rightarrow> jsstring \<Rightarrow> exn + jsval" where
  "get_prop v k =
     (case v of
        JUndefined \<Rightarrow> Inl TypeError
      | JNull \<Rightarrow> Inl TypeError
      | JObj fs \<Rightarrow> Inr (case map_of fs k of Some x \<Rightarrow> x | None \<Rightarrow> JUndefined)
      | _ \<Rightarrow> Inr JUndefined)"

section \<open>Dates\<close>

text \<open>
  A Date object holds a time value: an integral number of milliseconds since the epoch,
  at most 8.64e15 in absolute value, or NaN (an invalid date). The day and year
  arithmetic is that of ECMA-262 (Day, DayFromYear, YearFromTime, MonthFromTime,
  DateFromTime, MakeDay, MakeTime, MakeDate, TimeClip).
\<close>

datatype JSDate = TimeValue int | InvalidDate

definition msPerDay :: int where "msPerDay = 86400000"
definition msPerHour :: int where "msPerHour = 3600000"
definition msPerMinute :: int where "msPerMinute = 60000"
definition msPerSecond :: int where "msPerSecond = 1000"

definition Day :: "int \<Rightarrow> int" where
  "Day t = t div msPerDay"

definition TimeWithinDay :: "int \<Rightarrow> int" where
  "TimeWithinDay t = t mod msPerDay"

definition DaysInYear :: "int \<Rightarrow> int" where
  "DaysInYear y =
     (if y mod 4 \<noteq> 0 then 365 else if y mod 100 \<noteq> 0 then 366
      else if y mod 400 \<noteq> 0 then 365 else 366)"

definition DayFromYear :: "int \<Rightarrow> int" where
  "DayFromYear y =
     365 * (y - 1970) + (y - 1969) div 4 - (y - 1901) div 100 + (y - 1601) div 400"

text \<open>
  ECMA-262 defines YearFromTime(t) as the largest year y with TimeFromYear(y) \<le> t. It is
  computed here from an estimate that is off by at most one year; the lemmas
  \<open>YearFromDay_bounds\<close> and \<open>YearFromDay_unique\<close> below show that the result is that year.
\<close>

definition YearFromDay :: "int \<Rightarrow> int" where
  "YearFromDay d =
     (let y = 1970 + (400 * d) div 146097 in
      if d < DayFromYear y then y - 1
      else if DayFromYear (y + 1) \<le> d then y + 1
      else y)"

definition YearFromTime :: "int \<Rightarrow> int" where
  "YearFromTime t = YearFromDay (Day t)"

definition InLeapYear :: "int \<Rightarrow> int" where
  "InLeapYear t = (if DaysInYear (YearFromTime t) = 366 then 1 else 0)"

definition DayWithinYear :: "int \<Rightarrow> int" where
  "DayWithinYear t = Day t - DayFromYear (YearFromTime t)"

definition MonthFromTime :: "int \<Rightarrow> int" where
  "MonthFromTime t =
     (let d = DayWithinYear t; l = InLeapYear t in
      if d < 31 then 0
      else if d < 59 + l then 1
      else if d < 90 + l then 2
      else if d < 120 + l then 3
      else if d < 151 + l then 4
      else if d < 181 + l then 5
      else if d < 212 + l then 6
      else if d < 243 + l then 7
      else if d < 273 + l then 8
      else if d < 304 + l then 9
      else if d < 334 + l then 10
      else 11)"

definition DateFromTime :: "int \<Rightarrow> int" where
  "DateFromTime t =
     (let d = DayWithinYear t; l = InLeapYear t; m = MonthFromTime t in
      if m = 0 then d + 1
      else if m = 1 then d - 30
      else if m = 2 then d - 58 - l
      else if m = 3 then d - 89 - l
      else if m = 4 then d - 119 - l
      else if m = 5 then d - 150 - l
      else if m = 6 then d - 180 - l
      else if m = 7 then d - 211 - l
      else if m = 8 then d - 242 - l
      else if m = 9 then d - 272 - l
      else if m = 10 then d - 303 - l
      else d - 333 - l)"

definition HourFromTime :: "int \<Rightarrow> int" where
  "HourFromTime t = (t div msPerHour) mod 24"

definition MinFromTime :: "int \<Rightarrow> int" where
  "MinFromTime t = (t div msPerMinute) mod 60"

definition SecFromTime :: "int \<Rightarrow> int" where
  "SecFromTime t = (t div msPerSecond) mod 60"

definition msFromTime :: "int \<Rightarrow> int" where
  "msFromTime t = t mod msPerSecond"

text \<open>
  The days of a year before month \<open>m\<close> (0 is January; 12 gives the length of the year),
  with \<open>l = 1\<close> in a leap year.
\<close>

definition DaysBeforeMonth :: "int \<Rightarrow> int \<Rightarrow> int" where
  "DaysBeforeMonth l m =
     (if m = 0 then 0 else if m = 1 then 31 else if m = 2 then 59 + l
      else if m = 3 then 90 + l else if m = 4 then 120 + l else if m = 5 then 151 + l
      else if m = 6 then 181 + l else if m = 7 then 212 + l else if m = 8 then 243 + l
      else if m = 9 then 273 + l else if m = 10 then 304 + l else if m = 11 then 334 + l
      else 365 + l)"

text \<open>MakeDay for a month \<open>m\<close> in 0..11: the day number of the date \<open>dt\<close> of that month.\<close>

definition MakeDay :: "int \<Rightarrow> int \<Rightarrow> int \<Rightarrow> int" where
  "MakeDay y m dt =
     DayFromYear y + DaysBeforeMonth (if DaysInYear y = 366 then 1 else 0) m + dt - 1"

definition MakeTime :: "int \<Rightarrow> int \<Rightarrow> int \<Rightarrow> int \<Rightarrow> int" where
  "MakeTime h mi s ms = h * msPerHour + mi * msPerMinute + s * msPerSecond + ms"

definition MakeDate :: "int \<Rightarrow> int \<Rightarrow> int" where
  "MakeDate day time = day * msPerDay + time"

definition TimeClip :: "int \<Rightarrow> JSDate" where
  "TimeClip t = (if \<bar>t\<bar> > 8640000000000000 then InvalidDate else TimeValue t)"

text \<open>TimeClip of a Number: not finite or too large gives NaN, else truncation to an integer.\<close>

definition TimeClip_num :: "jsnum \<Rightarrow> JSDate" where
  "TimeClip_num n =
     (case n of
        Finite r \<Rightarrow>
          if \<bar>r\<bar> > 8640000000000000 then InvalidDate
          else TimeValue (if 0 \<le> r then \<lfloor>r\<rfloor> else \<lceil>r\<rceil>)
      | _ \<Rightarrow> InvalidDate)"

subsection \<open>\<open>Date.prototype.toISOString\<close>\<close>

definition digit_char :: "int \<Rightarrow> 16 word" where
  "digit_char d = word_of_int (48 + d)"

definition is_digit :: "16 word \<Rightarrow> bool" where
  "is_digit c = (48 \<le> uint c \<and> uint c \<le> 57)"

definition digit_val :: "16 word \<Rightarrow> int" where
  "digit_val c = uint c - 48"

text \<open>\<open>pad n v\<close>: the last \<open>n\<close> decimal digits of \<open>v\<close>, most significant first.\<close>

fun pad :: "nat \<Rightarrow> int \<Rightarrow> jsstring" where
  "pad 0 v = []"
| "pad (Suc n) v = digit_char ((v div 10 ^ n) mod 10) # pad n v"

text \<open>Years 0 to 9999 are written with four digits, all others with a sign and six.\<close>

definition year_string :: "int \<Rightarrow> jsstring" where
  "year_string y =
     (if 0 \<le> y \<and> y \<le> 9999 then pad 4 y
      else (if y < 0 then js ''-'' else js ''+'') @ pad 6 \<bar>y\<bar>)"

text \<open>\<open>toISOString\<close> throws a RangeError on an invalid date.\<close>

fun toISOString :: "JSDate \<Rightarrow> exn + jsstring" where
  "toISOString InvalidDate = Inl RangeError"
| "toISOString (TimeValue t) = Inr
     (year_string (YearFromTime t) @ js ''-'' @ pad 2 (MonthFromTime t + 1) @ js ''-'' @
      pad 2 (DateFromTime t) @ js ''T'' @ pad 2 (HourFromTime t) @ js '':'' @
      pad 2 (MinFromTime t) @ js '':'' @ pad 2 (SecFromTime t) @ js ''.'' @
      pad 3 (msFromTime t) @ js ''Z'')"

subsection \<open>\<open>Date.parse\<close> and \<open>new Date(value)\<close>\<close>

text \<open>Reading exactly \<open>n\<close> decimal digits, or a fixed text, from the front of a string.\<close>

fun digits :: "nat \<Rightarrow> jsstring \<Rightarrow> (int \<times> jsstring) option" where
  "digits 0 s = Some (0, s)"
| "digits (Suc n) [] = None"
| "digits (Suc n) (c # s) =
     (if is_digit c
      then (case digits n s of
              None \<Rightarrow> None
            | Some (v, r) \<Rightarrow> Some (digit_val c * 10 ^ n + v, r))
      else None)"

fun expect :: "jsstring \<Rightarrow> jsstring \<Rightarrow> jsstring option" where
  "expect [] s = Some s"
| "expect (c # cs) [] = None"
| "expect (c # cs) (x # s) = (if x = c then expect cs s else None)"

definition parse_year :: "jsstring \<Rightarrow> (int \<times> jsstring) option" where
  "parse_year s =
     (case expect (js ''+'') s of
        Some r \<Rightarrow> digits 6 r
      | None \<Rightarrow>
          (case expect (js ''-'') s of
             Some r \<Rightarrow>
               (case digits 6 r of
                  None \<Rightarrow> None
                | Some (v, r') \<Rightarrow> if v = 0 then None else Some (- v, r'))
           | None \<Rightarrow> digits 4 s))"

text \<open>
  The complete form \<open>YYYY-MM-DDTHH:mm:ss.sssZ\<close> (or with an expanded year
  \<open>\<plusminus>YYYYYY\<close>) of the Date Time String Format, with every field in range; the year
  \<open>-000000\<close> is not allowed. On such a string ECMA-262 fixes the result of \<open>Date.parse\<close>.
  \<open>None\<close> means that the string is not of this form.
\<close>

definition parse_iso :: "jsstring \<Rightarrow> JSDate option" where
  "parse_iso s0 = do {
     (y, s1) \<leftarrow> parse_year s0;
     s2 \<leftarrow> expect (js ''-'') s1;
     (mo, s3) \<leftarrow> digits 2 s2;
     s4 \<leftarrow> expect (js ''-'') s3;
     (dt, s5) \<leftarrow> digits 2 s4;
     s6 \<leftarrow> expect (js ''T'') s5;
     (h, s7) \<leftarrow> digits 2 s6;
     s8 \<leftarrow> expect (js '':'') s7;
     (mi, s9) \<leftarrow> digits 2 s8;
     s10 \<leftarrow> expect (js '':'') s9;
     (sec, s11) \<leftarrow> digits 2 s10;
     s12 \<leftarrow> expect (js ''.'') s11;
     (ms, s13) \<leftarrow> digits 3 s12;
     s14 \<leftarrow> expect (js ''Z'') s13;
     (let l = (if DaysInYear y = 366 then 1 else 0) in
      if s14 = [] \<and> 1 \<le> mo \<and> mo \<le> 12 \<and> 1 \<le> dt
         \<and> dt \<le> DaysBeforeMonth l mo - DaysBeforeMonth l (mo - 1)
         \<and> h \<le> 23 \<and> mi \<le> 59 \<and> sec \<le> 59
      then Some (TimeClip (MakeDate (MakeDay y (mo - 1) dt) (MakeTime h mi sec ms)))
      else None)
   }"

section \<open>The platform\<close>

text \<open>
  What the browser provides and this development does not fix is a parameter of the
  model; every theorem below holds for every platform.
  \<^item> \<open>JSON_parse\<close>: \<open>JSON.parse\<close>, \<open>None\<close> for a SyntaxError;
  \<^item> \<open>JSON_stringify\<close>: \<open>JSON.stringify\<close> on an array of plain objects;
  \<^item> \<open>Date_parse_other\<close>: \<open>Date.parse\<close> on a string that is not of the form read by
    \<open>parse_iso\<close> (implementation-defined in ECMA-262);
  \<^item> \<open>Date_of_object\<close>: \<open>new Date(v)\<close> for an array or object \<open>v\<close>, which goes through
    ToPrimitive (and may throw a TypeError) and then through \<open>Date.parse\<close>;
  \<^item> \<open>getItem_ok\<close>: whether \<open>localStorage.getItem\<close> returns (it throws where storage
    is denied);
  \<^item> \<open>setItem_ok\<close>: whether \<open>localStorage.setItem\<close> stores the given text over the given
    present value (it throws when the quota is exceeded).
\<close>

record platform =
  JSON_parse :: "jsstring \<Rightarrow> jsval option"
  JSON_stringify :: "jsval \<Rightarrow> jsstring"
  Date_parse_other :: "jsstring \<Rightarrow> JSDate"
  Date_of_object :: "jsval \<Rightarrow> exn + JSDate"
  getItem_ok :: bool
  setItem_ok :: "jsstring option \<Rightarrow> jsstring \<Rightarrow> bool"

text \<open>
  \<open>localStorage\<close>, as far as the application uses it: the text stored under the key
  \<open>tasks\<close> (\<open>None\<close> when the key is missing), and the texts of all calls of \<open>setItem\<close> so
  far, the latest first, whether they succeeded or not.
\<close>

record localStorage =
  item :: "jsstring option"
  setItem_calls :: "jsstring list"

definition Date_parse :: "platform \<Rightarrow> jsstring \<Rightarrow> JSDate" where
  "Date_parse P s = (case parse_iso s of Some d \<Rightarrow> d | None \<Rightarrow> Date_parse_other P s)"

text \<open>\<open>new Date(v)\<close> with one argument.\<close>

definition new_Date :: "platform \<Rightarrow> jsval \<Rightarrow> exn + JSDate" where
  "new_Date P v =
     (case v of
        JUndefined \<Rightarrow> Inr InvalidDate
      | JNull \<Rightarrow> Inr (TimeValue 0)
      | JBool b \<Rightarrow> Inr (TimeValue (if b then 1 else 0))
      | JNum n \<Rightarrow> Inr (TimeClip_num n)
      | JStr s \<Rightarrow> Inr (Date_parse P s)
      | JArr xs \<Rightarrow> Date_of_object P v
      | JObj fs \<Rightarrow> Date_of_object P v)"

section \<open>TaskModel\<close>

text \<open>
  A task object. JavaScript does not type its fields: \<open>addTask\<close> stores a number, a
  string, a boolean and a Date, but \<open>fromJSON\<close> stores whatever the parsed record holds.
  The fields \<open>id\<close> and \<open>text\<close> of the source are \<open>task_id\<close> and \<open>task_text\<close> here.
\<close>

record TaskModel =
  task_id :: jsval
  task_text :: jsval
  completed :: jsval
  createdAt :: JSDate

text \<open>
  The constructor. An argument that is \<open>undefined\<close> (or left out) takes its default:
  \<open>completed = false\<close>. The default of the fourth parameter, \<open>new Date()\<close>, reads the
  clock; the one caller that leaves the argument out, \<open>addTask\<close>, passes that reading.
  \<open>fromJSON\<close> always passes a Date object.
\<close>

definition TaskModel_new :: "jsval \<Rightarrow> jsval \<Rightarrow> jsval \<Rightarrow> JSDate \<Rightarrow> TaskModel" where
  "TaskModel_new i t c d =
     \<lparr>task_id = i, task_text = t,
      completed = (case c of JUndefined \<Rightarrow> JBool False | _ \<Rightarrow> c),
      createdAt = d\<rparr>"

definition toJSON :: "TaskModel \<Rightarrow> exn + jsval" where
  "toJSON t =
     try_bind (toISOString (createdAt t)) (\<lambda>iso.
       Inr (JObj [(js ''id'', task_id t), (js ''text'', task_text t),
                  (js ''completed'', completed t), (js ''createdAt'', JStr iso)]))"

definition fromJSON :: "platform \<Rightarrow> jsval \<Rightarrow> exn + TaskModel" where
  "fromJSON P json =
     try_bind (get_prop json (js ''id'')) (\<lambda>i.
     try_bind (get_prop json (js ''text'')) (\<lambda>t.
     try_bind (get_prop json (js ''completed'')) (\<lambda>c.
     try_bind (get_prop json (js ''createdAt'')) (\<lambda>ca.
     try_bind (new_Date P ca) (\<lambda>d.
       Inr (TaskModel_new i t c d))))))"

section \<open>TaskViewModel\<close>

text \<open>
  The view model: the fields \<open>tasks\<close> and \<open>currentFilter\<close>. Each method takes the view
  model, and the storage where it uses it, and returns them as they are after the call.
  The calls of \<open>console.log\<close>, \<open>console.warn\<close> and \<open>console.error\<close> change neither
  and are left out.
\<close>

record TaskViewModel =
  tasks :: "TaskModel list"
  currentFilter :: jsval

text \<open>
  \<open>saveTasks\<close>: serialize every task, then write the text. A RangeError of \<open>toISOString\<close>
  is caught before \<open>setItem\<close> is called; an exception of \<open>setItem\<close> is caught after
  the call. The view model is not changed; the result is the storage.
\<close>

definition saveTasks :: "platform \<Rightarrow> TaskViewModel \<Rightarrow> localStorage \<Rightarrow> localStorage" where
  "saveTasks P vm st =
     (case map_exn toJSON (tasks vm) of
        Inl e \<Rightarrow> st
      | Inr json \<Rightarrow>
          (let txt = JSON_stringify P (JArr json) in
           if setItem_ok P (item st) txt
           then \<lparr>item = Some txt, setItem_calls = txt # setItem_calls st\<rparr>
           else st\<lparr>setItem_calls := txt # setItem_calls st\<rparr>))"

text \<open>The body of the try block of \<open>loadTasks\<close>.\<close>

definition loadTasks_try :: "platform \<Rightarrow> TaskViewModel \<Rightarrow> localStorage \<Rightarrow> exn + TaskViewModel" where
  "loadTasks_try P vm st =
     (if \<not> getItem_ok P then Inl StorageError
      else case item st of
        None \<Rightarrow> Inr vm
      | Some stored \<Rightarrow>
          if stored = [] then Inr vm
          else (case JSON_parse P stored of
                  None \<Rightarrow> Inl SyntaxError
                | Some parsed \<Rightarrow>
                    (case parsed of
                       JArr xs \<Rightarrow>
                         try_bind (map_exn (fromJSON P) xs) (\<lambda>ts. Inr (vm\<lparr>tasks := ts\<rparr>))
                     | _ \<Rightarrow> Inl TypeError)))"

definition loadTasks :: "platform \<Rightarrow> TaskViewModel \<Rightarrow> localStorage \<Rightarrow> TaskViewModel" where
  "loadTasks P vm st =
     (case loadTasks_try P vm st of
        Inl e \<Rightarrow> vm\<lparr>tasks := []\<rparr>
      | Inr vm' \<Rightarrow> vm')"

definition constructor :: "platform \<Rightarrow> localStorage \<Rightarrow> TaskViewModel" where
  "constructor P st = loadTasks P \<lparr>tasks = [], currentFilter = JStr (js ''all'')\<rparr> st"

text \<open>
  \<open>addTask\<close>: \<open>now\<close> is the reading of \<open>Date.now()\<close> and \<open>created\<close> the time value of the
  \<open>new Date()\<close> in the constructor of the task. For a string, \<open>!text\<close> holds exactly of
  the empty string.
\<close>

definition addTask ::
  "platform \<Rightarrow> int \<Rightarrow> int \<Rightarrow> jsstring \<Rightarrow> TaskViewModel \<times> localStorage
     \<Rightarrow> bool \<times> TaskViewModel \<times> localStorage" where
  "addTask P now created txt s =
     (case s of (vm, st) \<Rightarrow>
        if txt = [] \<or> trim txt = [] then (False, vm, st)
        else
          (let task = TaskModel_new (JNum (Finite (of_int now))) (JStr (trim txt))
                        JUndefined (TimeValue created);
               vm' = vm\<lparr>tasks := task # tasks vm\<rparr>
           in (True, vm', saveTasks P vm' st)))"

text \<open>The position of the first element that satisfies \<open>p\<close>, as \<open>Array.prototype.find\<close> meets it.\<close>

fun find_first :: "('a \<Rightarrow> bool) \<Rightarrow> 'a list \<Rightarrow> nat option" where
  "find_first p [] = None"
| "find_first p (x # xs) = (if p x then Some 0 else map_option Suc (find_first p xs))"

text \<open>
  \<open>toggleTask\<close>: \<open>find\<close> returns the first task whose id is \<open>===\<close> the given number, and
  the assignment changes that object, which is the element of \<open>tasks\<close> at that position.
\<close>

definition toggleTask ::
  "platform \<Rightarrow> jsnum \<Rightarrow> TaskViewModel \<times> localStorage \<Rightarrow> bool \<times> TaskViewModel \<times> localStorage" where
  "toggleTask P i s =
     (case s of (vm, st) \<Rightarrow>
        (case find_first (\<lambda>t. strict_eq_num (task_id t) i) (tasks vm) of
           Some k \<Rightarrow>
             (let task = tasks vm ! k;
                  vm' = vm\<lparr>tasks := (tasks vm)[k := task\<lparr>completed := JBool (\<not> truthy (completed task))\<rparr>]\<rparr>
              in (True, vm', saveTasks P vm' st))
         | None \<Rightarrow> (False, vm, st)))"

definition deleteTask ::
  "platform \<Rightarrow> jsnum \<Rightarrow> TaskViewModel \<times> localStorage \<Rightarrow> TaskViewModel \<times> localStorage" where
  "deleteTask P i s =
     (case s of (vm, st) \<Rightarrow>
        (let beforeLength = length (tasks vm);
             vm' = vm\<lparr>tasks := filter (\<lambda>t. \<not> strict_eq_num (task_id t) i) (tasks vm)\<rparr>
         in if length (tasks vm') < beforeLength then (vm', saveTasks P vm' st)
            else (vm', st)))"


definition setFilter :: "jsval \<Rightarrow> TaskViewModel \<Rightarrow> TaskViewModel" where
  "setFilter f vm = vm\<lparr>currentFilter := f\<rparr>"



definition clearAllTasks ::
  "platform \<Rightarrow> TaskViewModel \<times> localStorage \<Rightarrow> TaskViewModel \<times> localStorage" where
  "clearAllTasks P s =
     (case s of (vm, st) \<Rightarrow>
        (let vm' = vm\<lparr>tasks := []\<rparr> in (vm', saveTasks P vm' st)))"

section \<open>Notions used in the statements\<close>

text \<open>A task has the given (number) id when \<open>t.id === id\<close>.\<close>

definition has_id :: "jsnum \<Rightarrow> TaskModel \<Rightarrow> bool" where
  "has_id i t = strict_eq_num (task_id t) i"

text \<open>The specification's reading of a deletion: the first match goes, the rest stays.\<close>

fun remove_first :: "('a \<Rightarrow> bool) \<Rightarrow> 'a list \<Rightarrow> 'a list" where
  "remove_first p [] = []"
| "remove_first p (x # xs) = (if p x then xs else x # remove_first p xs)"

text \<open>A text that is a string and is not empty after trimming.\<close>

definition nonblank :: "jsval \<Rightarrow> bool" where
  "nonblank v = (case v of JStr s \<Rightarrow> trim s \<noteq> [] | _ \<Rightarrow> False)"

definition texts_nonblank :: "TaskViewModel \<Rightarrow> bool" where
  "texts_nonblank vm = list_all (\<lambda>t. nonblank (task_text t)) (tasks vm)"

text \<open>The data model's typing of the flag: \<open>completed\<close> is a boolean.\<close>

definition is_boolean :: "jsval \<Rightarrow> bool" where
  "is_boolean v = (case v of JBool b \<Rightarrow> True | _ \<Rightarrow> False)"


text \<open>
  The persistence format: a JSON array of records with a number \<open>id\<close>, a string \<open>text\<close>,
  a boolean \<open>completed\<close> and a string \<open>createdAt\<close>.
\<close>

definition is_task_record :: "jsval \<Rightarrow> bool" where
  "is_task_record v =
     (case v of
        JObj fs \<Rightarrow>
          (case map_of fs (js ''id'') of Some (JNum i) \<Rightarrow> True | _ \<Rightarrow> False)
          \<and> (case map_of fs (js ''text'') of Some (JStr t) \<Rightarrow> True | _ \<Rightarrow> False)
          \<and> (case map_of fs (js ''completed'') of Some (JBool c) \<Rightarrow> True | _ \<Rightarrow> False)
          \<and> (case map_of fs (js ''createdAt'') of Some (JStr d) \<Rightarrow> True | _ \<Rightarrow> False)
      | _ \<Rightarrow> False)"

definition expected_blob :: "platform \<Rightarrow> jsstring \<Rightarrow> bool" where
  "expected_blob P b =
     (case JSON_parse P b of Some (JArr xs) \<Rightarrow> list_all is_task_record xs | _ \<Rightarrow> False)"

text \<open>No stored text: the key is missing, or holds the empty string.\<close>

definition blob_absent :: "localStorage \<Rightarrow> bool" where
  "blob_absent st = (item st = None \<or> item st = Some [])"

text \<open>
  A stored text that is not JSON, or is JSON for something other than an array, or for
  an array with a \<open>null\<close> in it.
\<close>

definition blob_rejected :: "platform \<Rightarrow> localStorage \<Rightarrow> bool" where
  "blob_rejected P st =
     (case item st of
        None \<Rightarrow> False
      | Some b \<Rightarrow>
          b \<noteq> [] \<and>
          (case JSON_parse P b of
             None \<Rightarrow> True
           | Some (JArr xs) \<Rightarrow> JNull \<in> set xs
           | Some v \<Rightarrow> True))"

text \<open>
  A storage from which the constructor loads only tasks with a non-blank text (none at
  all, for one).
\<close>

definition loads_nonblank :: "platform \<Rightarrow> localStorage \<Rightarrow> bool" where
  "loads_nonblank P st = texts_nonblank (constructor P st)"

definition any_storage :: "localStorage \<Rightarrow> bool" where
  "any_storage st = True"

text \<open>
  The states of a session: the application starts from a storage that satisfies
  \<open>start\<close>, and then any of its operations may be called, in any order.
\<close>

inductive reachable ::
  "platform \<Rightarrow> (localStorage \<Rightarrow> bool) \<Rightarrow> TaskViewModel \<times> localStorage \<Rightarrow> bool"
  for P :: platform and start :: "localStorage \<Rightarrow> bool"
where
  started: "start st \<Longrightarrow> reachable P start (constructor P st, st)"
| added: "reachable P start s \<Longrightarrow> reachable P start (snd (addTask P now created txt s))"
| toggled: "reachable P start s \<Longrightarrow> reachable P start (snd (toggleTask P i s))"
| deleted: "reachable P start s \<Longrightarrow> reachable P start (deleteTask P i s)"
| filtered: "reachable P start (vm, st) \<Longrightarrow> reachable P start (setFilter f vm, st)"
| cleared: "reachable P start s \<Longrightarrow> reachable P start (clearAllTasks P s)"

subsection \<open>A platform and some states for the examples\<close>

text \<open>
  One platform on which the model is evaluated at concrete inputs. Its \<open>JSON.parse\<close>
  knows the stored texts of the examples and rejects every other text; its
  \<open>JSON.stringify\<close> knows the empty array, and answers with a placeholder otherwise
  (no example reads the text that was written).
\<close>

definition blank_text_blob :: jsstring where
  \<open>blank_text_blob =
     js ''[{"id":1,"text":" ","completed":false,"createdAt":"2020-01-01T00:00:00.000Z"}]''\<close>

definition null_flag_blob :: jsstring where
  \<open>null_flag_blob =
     js ''[{"id":1,"text":"Buy milk","completed":null,"createdAt":"2020-01-01T00:00:00.000Z"}]''\<close>

definition demo_parse :: "jsstring \<Rightarrow> jsval option" where
  "demo_parse s =
     (if s = js ''[5]'' then Some (JArr [JNum (Finite 5)])
      else if s = js ''[null]'' then Some (JArr [JNull])
      else if s = blank_text_blob then
        Some (JArr [JObj [(js ''id'', JNum (Finite 1)), (js ''text'', JStr (js '' '')),
                          (js ''completed'', JBool False),
                          (js ''createdAt'', JStr (js ''2020-01-01T00:00:00.000Z''))]])
      else if s = null_flag_blob then
        Some (JArr [JObj [(js ''id'', JNum (Finite 1)), (js ''text'', JStr (js ''Buy milk'')),
                          (js ''completed'', JNull),
                          (js ''createdAt'', JStr (js ''2020-01-01T00:00:00.000Z''))]])
      else None)"

definition demo_platform :: platform where
  "demo_platform =
     \<lparr>JSON_parse = demo_parse,
      JSON_stringify = (\<lambda>v. if v = JArr [] then js ''[]'' else js ''[...]''),
      Date_parse_other = (\<lambda>s. InvalidDate),
      Date_of_object = (\<lambda>v. Inr InvalidDate),
      getItem_ok = True,
      setItem_ok = (\<lambda>old new. True)\<rparr>"

definition empty_storage :: localStorage where
  "empty_storage = \<lparr>item = None, setItem_calls = []\<rparr>"

definition storage_with :: "jsstring \<Rightarrow> localStorage" where
  "storage_with b = \<lparr>item = Some b, setItem_calls = []\<rparr>"

definition empty_vm :: TaskViewModel where
  "empty_vm = \<lparr>tasks = [], currentFilter = JStr (js ''all'')\<rparr>"

definition some_task :: "int \<Rightarrow> string \<Rightarrow> bool \<Rightarrow> TaskModel" where
  "some_task i t c =
     \<lparr>task_id = JNum (Finite (of_int i)), task_text = JStr (js t), completed = JBool c,
      createdAt = TimeValue 1577836800000\<rparr>"

definition three_tasks :: TaskViewModel where
  "three_tasks =
     \<lparr>tasks = [some_task 3 ''Buy milk'' False, some_task 2 ''Call home'' True,
               some_task 1 ''Water plants'' False],
      currentFilter = JStr (js ''active'')\<rparr>"

text \<open>Two tasks added within one millisecond: \<open>Date.now()\<close> gives both the same id.\<close>

definition same_tick :: "TaskViewModel \<times> localStorage" where
  "same_tick =
     snd (addTask demo_platform 1577836800000 1577836800000 (js ''Call home'')
       (snd (addTask demo_platform 1577836800000 1577836800000 (js ''Buy milk'')
          (empty_vm, empty_storage))))"

text \<open>A stored record whose flag is \<open>null\<close>, loaded.\<close>

definition null_flag_vm :: TaskViewModel where
  "null_flag_vm = constructor demo_platform (storage_with null_flag_blob)"

definition toggled_once :: "bool \<times> TaskViewModel \<times> localStorage" where
  "toggled_once = toggleTask demo_platform (Finite 1) (null_flag_vm, storage_with null_flag_blob)"

definition toggled_twice :: "bool \<times> TaskViewModel \<times> localStorage" where
  "toggled_twice = toggleTask demo_platform (Finite 1) (snd toggled_once)"

text \<open>A session: start from that stored record, then add one task.\<close>

definition after_one_add :: "TaskViewModel \<times> localStorage" where
  "after_one_add =
     snd (addTask demo_platform 1577836800000 1577836800000 (js '' Call home'')
            (constructor demo_platform (storage_with null_flag_blob),
             storage_with null_flag_blob))"

section \<open>Calendar arithmetic\<close>

lemma div_bounds:
  fixes a k :: int
  assumes "0 < k"
  shows "k * (a div k) \<le> a" and "a < k * (a div k) + k"
proof -
  have "a = k * (a div k) + a mod k" by simp
  moreover have "0 \<le> a mod k" and "a mod k < k" using assms by simp_all
  ultimately show "k * (a div k) \<le> a" and "a < k * (a div k) + k" by linarith+
qed

lemma div_succ:
  fixes a k :: int
  assumes k: "0 < k"
  shows "(a + 1) div k = a div k + (if (a + 1) mod k = 0 then 1 else 0)"
proof (cases "(a + 1) mod k = 0")
  case True
  then have "a + 1 = k * ((a + 1) div k)"
    using mult_div_mod_eq [of k "a + 1"] by simp
  then have "a = k * ((a + 1) div k - 1) + (k - 1)"
    by (simp add: algebra_simps)
  then have "a div k = (a + 1) div k - 1"
    using k int_div_pos_eq [of a k "(a + 1) div k - 1" "k - 1"] by simp
  with True show ?thesis by simp
next
  case False
  define r where "r = (a + 1) mod k"
  have "0 \<le> r" and "r < k" using k by (simp_all add: r_def)
  moreover have "r \<noteq> 0" using False by (simp add: r_def)
  ultimately have r: "0 < r" "r < k" by linarith+
  have "a + 1 = k * ((a + 1) div k) + r" by (simp add: r_def)
  then have "a = k * ((a + 1) div k) + (r - 1)" by simp
  then have "a div k = (a + 1) div k"
    using r int_div_pos_eq [of a k "(a + 1) div k" "r - 1"] by simp
  with False show ?thesis by simp
qed

lemma mod_shift:
  fixes y c k :: int
  assumes "k dvd c"
  shows "(y - c) mod k = 0 \<longleftrightarrow> y mod k = 0"
  using assms unfolding mod_eq_0_iff_dvd by (rule dvd_diff_left_iff)

lemma mod_coarser:
  fixes y j k :: int
  assumes "j dvd k" and "y mod k = 0"
  shows "y mod j = 0"
  using assms unfolding mod_eq_0_iff_dvd by (rule dvd_trans)

text \<open>A year is as long as \<open>DaysInYear\<close> says.\<close>

lemma DayFromYear_Suc: "DayFromYear (y + 1) = DayFromYear y + DaysInYear y"
proof -
  have a: "(y - 1968) div 4 = (y - 1969) div 4 + (if y mod 4 = 0 then 1 else 0)"
    using div_succ [of 4 "y - 1969"] mod_shift [of 4 1968 y] by simp
  have b: "(y - 1900) div 100 = (y - 1901) div 100 + (if y mod 100 = 0 then 1 else 0)"
    using div_succ [of 100 "y - 1901"] mod_shift [of 100 1900 y] by simp
  have c: "(y - 1600) div 400 = (y - 1601) div 400 + (if y mod 400 = 0 then 1 else 0)"
    using div_succ [of 400 "y - 1601"] mod_shift [of 400 1600 y] by simp
  have "DayFromYear (y + 1) =
      365 * (y - 1969) + (y - 1968) div 4 - (y - 1900) div 100 + (y - 1600) div 400"
    by (simp add: DayFromYear_def)
  then show ?thesis
    using mod_coarser [of 4 100 y] mod_coarser [of 100 400 y]
    by (simp add: a b c DayFromYear_def DaysInYear_def)
qed

lemma DaysInYear_range: "365 \<le> DaysInYear y" "DaysInYear y \<le> 366"
  by (simp_all add: DaysInYear_def)

lemma DayFromYear_mono: "y \<le> z \<Longrightarrow> DayFromYear y \<le> DayFromYear z"
proof (induction z rule: int_ge_induct)
  case base
  show ?case by simp
next
  case (step i)
  with DayFromYear_Suc [of i] DaysInYear_range(1) [of i] show ?case by linarith
qed

lemma DayFromYear_strict_mono: "y < z \<Longrightarrow> DayFromYear y < DayFromYear z"
proof -
  assume "y < z"
  then have "DayFromYear (y + 1) \<le> DayFromYear z" by (intro DayFromYear_mono) simp
  with DayFromYear_Suc [of y] DaysInYear_range(1) [of y] show ?thesis by linarith
qed

text \<open>The day number of 1 January is within two days of the mean year length.\<close>

lemma year_estimate_lower:
  fixes y f4 f100 f400 :: int
  assumes "y - 1969 < 4 * f4 + 4" and "100 * f100 \<le> y - 1901" and "y - 1601 < 400 * f400 + 400"
  shows "146097 * (y - 1970) - 607 < 400 * (365 * (y - 1970) + f4 - f100 + f400)"
  using assms by simp

lemma year_estimate_upper:
  fixes y f4 f100 f400 :: int
  assumes "4 * f4 \<le> y - 1969" and "y - 1901 < 100 * f100 + 100" and "400 * f400 \<le> y - 1601"
  shows "400 * (365 * (y - 1970) + f4 - f100 + f400) < 146097 * (y - 1970) + 593"
  using assms by simp

lemma DayFromYear_approx:
  "146097 * (y - 1970) - 607 < 400 * DayFromYear y"
  "400 * DayFromYear y < 146097 * (y - 1970) + 593"
proof -
  have a: "4 * ((y - 1969) div 4) \<le> y - 1969" "y - 1969 < 4 * ((y - 1969) div 4) + 4"
    by (rule div_bounds, simp)+
  have b: "100 * ((y - 1901) div 100) \<le> y - 1901"
    "y - 1901 < 100 * ((y - 1901) div 100) + 100"
    by (rule div_bounds, simp)+
  have c: "400 * ((y - 1601) div 400) \<le> y - 1601"
    "y - 1601 < 400 * ((y - 1601) div 400) + 400"
    by (rule div_bounds, simp)+
  show "146097 * (y - 1970) - 607 < 400 * DayFromYear y"
    unfolding DayFromYear_def by (rule year_estimate_lower [OF a(2) b(1) c(2)])
  show "400 * DayFromYear y < 146097 * (y - 1970) + 593"
    unfolding DayFromYear_def by (rule year_estimate_upper [OF a(1) b(2) c(1)])
qed

lemma estimate_below:
  fixes D y d :: int
  assumes "400 * D < 146097 * (y - 1 - 1970) + 593" and "146097 * (y - 1970) \<le> 400 * d"
  shows "D \<le> d"
  using assms by simp

lemma estimate_above:
  fixes D y d :: int
  assumes "146097 * (y + 1 + 1 - 1970) - 607 < 400 * D"
    and "400 * d < 146097 * (y - 1970) + 146097"
  shows "d < D"
  using assms by simp

text \<open>\<open>YearFromDay d\<close> is the year that contains day \<open>d\<close>, and the only one.\<close>

lemma YearFromDay_bounds:
  "DayFromYear (YearFromDay d) \<le> d" "d < DayFromYear (YearFromDay d + 1)"
proof -
  define y where "y = 1970 + (400 * d) div 146097"
  have e: "146097 * (y - 1970) \<le> 400 * d" "400 * d < 146097 * (y - 1970) + 146097"
    unfolding y_def using div_bounds [of 146097 "400 * d"] by simp_all
  have lo: "DayFromYear (y - 1) \<le> d"
    by (rule estimate_below [OF DayFromYear_approx(2) e(1)])
  have hi: "d < DayFromYear (y + 1 + 1)"
    by (rule estimate_above [OF DayFromYear_approx(1) e(2)])
  show "DayFromYear (YearFromDay d) \<le> d"
    using lo by (simp add: YearFromDay_def Let_def y_def [symmetric])
  show "d < DayFromYear (YearFromDay d + 1)"
    using hi by (simp add: YearFromDay_def Let_def y_def [symmetric])
qed

lemma YearFromDay_unique:
  assumes "DayFromYear y \<le> d" and "d < DayFromYear (y + 1)"
  shows "YearFromDay d = y"
proof (rule ccontr)
  assume ne: "YearFromDay d \<noteq> y"
  show False
  proof (cases "YearFromDay d < y")
    case True
    then have "DayFromYear (YearFromDay d + 1) \<le> DayFromYear y"
      by (intro DayFromYear_mono) simp
    with YearFromDay_bounds(2) [of d] assms(1) show False by linarith
  next
    case False
    with ne have "DayFromYear (y + 1) \<le> DayFromYear (YearFromDay d)"
      by (intro DayFromYear_mono) simp
    with YearFromDay_bounds(1) [of d] assms(2) show False by linarith
  qed
qed

lemma DayWithinYear_range: "0 \<le> DayWithinYear t" "DayWithinYear t < 365 + InLeapYear t"
  using YearFromDay_bounds [of "Day t"] DayFromYear_Suc [of "YearFromDay (Day t)"]
    DaysInYear_range [of "YearFromDay (Day t)"]
  by (auto simp: DayWithinYear_def InLeapYear_def YearFromTime_def)

lemma InLeapYear_cases: "InLeapYear t = 0 \<or> InLeapYear t = 1"
  by (simp add: InLeapYear_def)

lemma MonthFromTime_range: "0 \<le> MonthFromTime t" "MonthFromTime t \<le> 11"
  by (simp_all add: MonthFromTime_def Let_def)

lemma month_date:
  "DaysBeforeMonth (InLeapYear t) (MonthFromTime t) + DateFromTime t - 1 = DayWithinYear t"
  by (simp add: DaysBeforeMonth_def MonthFromTime_def DateFromTime_def Let_def)

lemma DateFromTime_range:
  "1 \<le> DateFromTime t"
  "DateFromTime t \<le> DaysBeforeMonth (InLeapYear t) (MonthFromTime t + 1)
                      - DaysBeforeMonth (InLeapYear t) (MonthFromTime t)"
  using DayWithinYear_range [of t] InLeapYear_cases [of t]
  by (auto simp: DaysBeforeMonth_def MonthFromTime_def DateFromTime_def Let_def)

lemma DateFromTime_le_31: "DateFromTime t \<le> 31"
  using DateFromTime_range(2) [of t] MonthFromTime_range [of t] InLeapYear_cases [of t]
  by (auto simp: DaysBeforeMonth_def split: if_splits)

lemma MakeDay_fields: "MakeDay (YearFromTime t) (MonthFromTime t) (DateFromTime t) = Day t"
  using month_date [of t] by (simp add: MakeDay_def InLeapYear_def DayWithinYear_def)

lemma time_fields_range:
  "0 \<le> HourFromTime t" "HourFromTime t \<le> 23" "0 \<le> MinFromTime t" "MinFromTime t \<le> 59"
  "0 \<le> SecFromTime t" "SecFromTime t \<le> 59" "0 \<le> msFromTime t" "msFromTime t \<le> 999"
  by (simp_all add: HourFromTime_def MinFromTime_def SecFromTime_def msFromTime_def
      msPerSecond_def)

lemma MakeTime_fields:
  "MakeTime (HourFromTime t) (MinFromTime t) (SecFromTime t) (msFromTime t) = TimeWithinDay t"
proof -
  have a: "t mod 86400000 = 3600000 * (t div 3600000 mod 24) + t mod 3600000"
    using zmod_zmult2_eq [of 24 t 3600000] by simp
  have b: "t mod 3600000 = 60000 * (t div 60000 mod 60) + t mod 60000"
    using zmod_zmult2_eq [of 60 t 60000] by simp
  have c: "t mod 60000 = 1000 * (t div 1000 mod 60) + t mod 1000"
    using zmod_zmult2_eq [of 60 t 1000] by simp
  show ?thesis
    unfolding MakeTime_def HourFromTime_def MinFromTime_def SecFromTime_def msFromTime_def
      TimeWithinDay_def msPerDay_def msPerHour_def msPerMinute_def msPerSecond_def
    using a b c by linarith
qed

text \<open>The fields of a time value put together again give the time value.\<close>

lemma MakeDate_fields:
  "MakeDate (MakeDay (YearFromTime t) (MonthFromTime t) (DateFromTime t))
     (MakeTime (HourFromTime t) (MinFromTime t) (SecFromTime t) (msFromTime t)) = t"
  by (simp add: MakeDay_fields MakeTime_fields MakeDate_def Day_def TimeWithinDay_def)

lemma YearFromTime_range:
  assumes "\<bar>t\<bar> \<le> 8640000000000000"
  shows "- 271821 \<le> YearFromTime t" "YearFromTime t \<le> 275760"
proof -
  have d: "- 100000000 \<le> Day t" "Day t \<le> 100000000"
    using assms by (auto simp: Day_def msPerDay_def)
  show "YearFromTime t \<le> 275760"
  proof (rule ccontr)
    assume "\<not> YearFromTime t \<le> 275760"
    then have "DayFromYear 275761 \<le> DayFromYear (YearFromTime t)"
      by (intro DayFromYear_mono) simp
    moreover have "DayFromYear 275761 > 100000000" by (simp add: DayFromYear_def)
    ultimately show False
      using YearFromDay_bounds(1) [of "Day t"] d by (simp add: YearFromTime_def)
  qed
  show "- 271821 \<le> YearFromTime t"
  proof (rule ccontr)
    assume "\<not> - 271821 \<le> YearFromTime t"
    then have "DayFromYear (YearFromTime t + 1) \<le> DayFromYear (- 271821)"
      by (intro DayFromYear_mono) simp
    moreover have "DayFromYear (- 271821) < - 100000000" by (simp add: DayFromYear_def)
    ultimately show False
      using YearFromDay_bounds(2) [of "Day t"] d by (simp add: YearFromTime_def)
  qed
qed

section \<open>Writing and reading the ISO form\<close>

lemma digit_char_uint:
  assumes "0 \<le> d" and "d < 10"
  shows "uint (digit_char d) = 48 + d"
  unfolding digit_char_def uint_word_of_int using assms by simp

lemma digit_char_props:
  assumes "0 \<le> d" and "d < 10"
  shows "is_digit (digit_char d)" and "digit_val (digit_char d) = d"
  using digit_char_uint [OF assms] assms by (simp_all add: is_digit_def digit_val_def)

lemma digit_char_not_sign:
  assumes "0 \<le> d" and "d < 10"
  shows "digit_char d \<noteq> 43" and "digit_char d \<noteq> 45"
proof -
  show "digit_char d \<noteq> 43"
  proof
    assume "digit_char d = 43"
    then have "uint (digit_char d) = uint (43 :: 16 word)" by simp
    with digit_char_uint [OF assms] assms show False by simp
  qed
  show "digit_char d \<noteq> 45"
  proof
    assume "digit_char d = 45"
    then have "uint (digit_char d) = uint (45 :: 16 word)" by simp
    with digit_char_uint [OF assms] assms show False by simp
  qed
qed

lemma digits_pad: "digits n (pad n v @ r) = Some (v mod 10 ^ n, r)"
proof (induction n)
  case 0
  show ?case by simp
next
  case (Suc n)
  let ?d = "(v div 10 ^ n) mod 10"
  have d: "0 \<le> ?d" "?d < 10" by simp_all
  have "v mod (10 ^ n * 10) = 10 ^ n * ?d + v mod 10 ^ n"
    by (rule zmod_zmult2_eq) simp
  then show ?case
    using Suc digit_char_props [OF d] by (simp add: mult.commute)
qed

lemma expect_prefix: "expect p (p @ r) = Some r"
  by (induction p) simp_all

lemma expect_self: "expect p p = Some []"
  using expect_prefix [of p "[]"] by simp

lemma js_plus: "js ''+'' = [43]" and js_minus: "js ''-'' = [45]"
  by (simp_all add: js_def)

lemma parse_year_string:
  assumes "- 999999 \<le> y" and "y \<le> 999999"
  shows "parse_year (year_string y @ r) = Some (y, r)"
proof -
  consider (short) "0 \<le> y" "y \<le> 9999" | (pos) "9999 < y" | (neg) "y < 0" by linarith
  then show ?thesis
  proof cases
    case short
    let ?d = "(y div 10 ^ 3) mod 10"
    have hd: "pad 4 y @ r = digit_char ?d # (pad 3 y @ r)"
      by (simp add: eval_nat_numeral)
    have d: "0 \<le> ?d" "?d < 10" by simp_all
    have no: "expect (js ''+'') (pad 4 y @ r) = None" "expect (js ''-'') (pad 4 y @ r) = None"
      unfolding hd js_plus js_minus using digit_char_not_sign [OF d] by simp_all
    have "digits 4 (pad 4 y @ r) = Some (y, r)"
      using short by (simp add: digits_pad)
    with short no show ?thesis by (simp add: parse_year_def year_string_def)
  next
    case pos
    have "digits 6 (pad 6 \<bar>y\<bar> @ r) = Some (y, r)"
      using pos assms by (simp add: digits_pad)
    with pos show ?thesis
      by (simp add: parse_year_def year_string_def expect_prefix)
  next
    case neg
    have "digits 6 (pad 6 \<bar>y\<bar> @ r) = Some (- y, r)"
      using neg assms by (simp add: digits_pad)
    moreover have "expect (js ''+'') (js ''-'' @ pad 6 \<bar>y\<bar> @ r) = None"
      by (simp add: js_plus js_minus)
    ultimately show ?thesis using neg
      by (simp add: parse_year_def year_string_def expect_prefix)
  qed
qed

text \<open>What \<open>toISOString\<close> writes for a valid date, \<open>Date.parse\<close> reads back to the millisecond.\<close>

lemma parse_iso_toISOString:
  assumes "\<bar>t\<bar> \<le> 8640000000000000"
  shows "\<exists>iso. toISOString (TimeValue t) = Inr iso \<and> parse_iso iso = Some (TimeValue t)"
proof -
  have y: "- 999999 \<le> YearFromTime t" "YearFromTime t \<le> 999999"
    using YearFromTime_range [OF assms] by linarith+
  have l: "(if DaysInYear (YearFromTime t) = 366 then 1 else 0) = InLeapYear t"
    by (simp add: InLeapYear_def)
  have mo: "(MonthFromTime t + 1) mod 100 = MonthFromTime t + 1"
    using MonthFromTime_range [of t] by simp
  have dt: "DateFromTime t mod 100 = DateFromTime t"
    using DateFromTime_range(1) [of t] DateFromTime_le_31 [of t] by simp
  have h: "HourFromTime t mod 100 = HourFromTime t" "MinFromTime t mod 100 = MinFromTime t"
    "SecFromTime t mod 100 = SecFromTime t" "msFromTime t mod 1000 = msFromTime t"
    using time_fields_range [of t] by simp_all
  have clip: "TimeClip t = TimeValue t"
    using assms by (simp add: TimeClip_def)
  show ?thesis
    using MonthFromTime_range [of t] DateFromTime_range [of t] time_fields_range [of t]
    by (simp add: parse_iso_def parse_year_string [OF y] expect_prefix expect_self digits_pad
        mo dt h l MakeDate_fields clip)
qed

text \<open>Some dates, as the browsers write them, and some texts that are not of the form.\<close>

lemma toISOString_examples:
  "toISOString (TimeValue 1577836800000) = Inr (js ''2020-01-01T00:00:00.000Z'')"
  "toISOString (TimeValue 1582934400123) = Inr (js ''2020-02-29T00:00:00.123Z'')"
  "toISOString (TimeValue (- 1)) = Inr (js ''1969-12-31T23:59:59.999Z'')"
  "toISOString (TimeValue 8640000000000000) = Inr (js ''+275760-09-13T00:00:00.000Z'')"
  "toISOString (TimeValue (- 8640000000000000)) = Inr (js ''-271821-04-20T00:00:00.000Z'')"
  "toISOString (TimeValue (- 62167219200000)) = Inr (js ''0000-01-01T00:00:00.000Z'')"
  "toISOString (TimeValue (- 62198755200000)) = Inr (js ''-000001-01-01T00:00:00.000Z'')"
  by code_simp+

lemma parse_iso_examples:
  "parse_iso (js ''2020-01-01T00:00:00.000Z'') = Some (TimeValue 1577836800000)"
  "parse_iso (js ''-271821-04-20T00:00:00.000Z'') = Some (TimeValue (- 8640000000000000))"
  "parse_iso (js ''+275760-09-13T00:00:00.001Z'') = Some InvalidDate"
  "parse_iso (js ''2020-02-30T00:00:00.000Z'') = None"
  "parse_iso (js ''-000000-01-01T00:00:00.000Z'') = None"
  "parse_iso (js ''2020-01-01'') = None"
  by code_simp+

section \<open>Trimming\<close>

lemma trim_Nil_iff: "trim s = [] \<longleftrightarrow> (\<forall>c\<in>set s. is_whitespace c)"
proof -
  have "trim s = [] \<longleftrightarrow> (\<forall>c\<in>set (dropWhile is_whitespace s). is_whitespace c)"
    by (simp add: trim_def dropWhile_eq_Nil_conv)
  also have "\<dots> \<longleftrightarrow> dropWhile is_whitespace s = []"
  proof
    assume a: "\<forall>c\<in>set (dropWhile is_whitespace s). is_whitespace c"
    show "dropWhile is_whitespace s = []"
    proof (rule ccontr)
      assume ne: "dropWhile is_whitespace s \<noteq> []"
      then have "\<not> is_whitespace (hd (dropWhile is_whitespace s))" by (rule hd_dropWhile)
      moreover have "hd (dropWhile is_whitespace s) \<in> set (dropWhile is_whitespace s)"
        using ne by simp
      ultimately show False using a by blast
    qed
  next
    assume e: "dropWhile is_whitespace s = []"
    show "\<forall>c\<in>set (dropWhile is_whitespace s). is_whitespace c"
      unfolding e by simp
  qed
  also have "\<dots> \<longleftrightarrow> (\<forall>c\<in>set s. is_whitespace c)"
    by (simp add: dropWhile_eq_Nil_conv)
  finally show ?thesis .
qed

section \<open>Adding a task\<close>

text \<open>
  Claim C1. For every input string whose trimmed form is not empty, \<open>addTask\<close> on any
  state returns true, makes \<open>tasks\<close> longer by exactly one, keeps the tasks that were
  there in their order behind the new one, and puts the new task at position 0 with
  \<open>completed = false\<close> and the trimmed input as its text. This holds on every platform,
  whether or not the write to storage succeeds.
\<close>

theorem addTask_accepts:
  assumes "trim txt \<noteq> []"
  shows "case addTask P now created txt (vm, st) of
           (ok, vm', st') \<Rightarrow>
             ok \<and> length (tasks vm') = length (tasks vm) + 1
             \<and> drop 1 (tasks vm') = tasks vm
             \<and> completed (tasks vm' ! 0) = JBool False
             \<and> task_text (tasks vm' ! 0) = JStr (trim txt)"
proof -
  from assms have "txt \<noteq> []" by (auto simp: trim_def)
  with assms show ?thesis
    by (simp add: addTask_def Let_def TaskModel_new_def)
qed

theorem addTask_accepts_witness:
  "trim (js ''  Buy milk '') \<noteq> [] \<and>
   (case addTask demo_platform 1577836800000 1577836800007 (js ''  Buy milk '')
           (\<lparr>tasks = [some_task 5 ''Call home'' True], currentFilter = JStr (js ''all'')\<rparr>,
            empty_storage) of
      (ok, vm', st') \<Rightarrow>
        ok \<and> length (tasks vm') = 2
        \<and> drop 1 (tasks vm') = [some_task 5 ''Call home'' True]
        \<and> completed (tasks vm' ! 0) = JBool False
        \<and> task_text (tasks vm' ! 0) = JStr (js ''Buy milk''))"
proof -
  have t: "trim (js ''  Buy milk '') = js ''Buy milk''"
    by (simp add: trim_def js_def is_whitespace_def)
  then have h: "trim (js ''  Buy milk '') \<noteq> []" by (simp add: js_def)
  show ?thesis
    using h addTask_accepts [OF h, where P = demo_platform and now = 1577836800000
        and created = 1577836800007 and st = empty_storage
        and vm = "\<lparr>tasks = [some_task 5 ''Call home'' True], currentFilter = JStr (js ''all'')\<rparr>"]
    by (simp add: t split: prod.splits)
qed

text \<open>
  Claim C9. For every input string that is empty or consists of whitespace only,
  \<open>addTask\<close> on any state returns false and leaves the view model and the storage as
  they were: \<open>tasks\<close> is unchanged and \<open>setItem\<close> is not called. The result is a value,
  no exception.
\<close>

theorem addTask_rejects_blank:
  assumes "\<forall>c\<in>set txt. is_whitespace c"
  shows "addTask P now created txt (vm, st) = (False, vm, st)"
  using assms by (simp add: addTask_def trim_Nil_iff)

theorem addTask_rejects_blank_witness:
  "list_all is_whitespace (js ''  '') \<and>
   addTask demo_platform 1577836800000 1577836800007 (js ''  '')
     (\<lparr>tasks = [some_task 5 ''Call home'' True], currentFilter = JStr (js ''all'')\<rparr>,
      empty_storage)
     = (False, \<lparr>tasks = [some_task 5 ''Call home'' True], currentFilter = JStr (js ''all'')\<rparr>,
        empty_storage)"
proof -
  have h: "\<forall>c\<in>set (js ''  ''). is_whitespace c"
    by (simp add: js_def is_whitespace_def)
  show ?thesis
    using h addTask_rejects_blank [OF h] by (simp add: list_all_iff)
qed

section \<open>The completed flag\<close>




section \<open>Statistics\<close>



section \<open>Filtering\<close>



section \<open>Deleting\<close>

lemma filter_none: "\<not> (\<exists>x\<in>set xs. p x) \<Longrightarrow> filter (\<lambda>x. \<not> p x) xs = xs"
  by (induction xs) auto

lemma filter_single_remove_first:
  "length (filter p xs) = 1 \<Longrightarrow> filter (\<lambda>x. \<not> p x) xs = remove_first p xs"
proof (induction xs)
  case Nil
  then show ?case by simp
next
  case (Cons x xs)
  show ?case
  proof (cases "p x")
    case True
    with Cons.prems have "filter p xs = []" by simp
    then have "\<not> (\<exists>y\<in>set xs. p y)" by (simp add: filter_empty_conv)
    then have "filter (\<lambda>y. \<not> p y) xs = xs" by (rule filter_none)
    with True show ?thesis by simp
  next
    case False
    with Cons show ?thesis by simp
  qed
qed

text \<open>
  Claim C10. For every state that holds no task with the given id, \<open>deleteTask\<close> writes
  nothing: the storage, which records every call of \<open>setItem\<close>, is as it was before the
  call (and so is the view model).
\<close>

theorem deleteTask_missing_id_no_write:
  assumes "\<not> (\<exists>t\<in>set (tasks vm). has_id i t)"
  shows "deleteTask P i (vm, st) = (vm, st)"
proof -
  have "filter (\<lambda>t. \<not> strict_eq_num (task_id t) i) (tasks vm) = tasks vm"
    using assms filter_none [of "tasks vm" "\<lambda>t. strict_eq_num (task_id t) i"]
    by (simp add: has_id_def)
  then show ?thesis by (simp add: deleteTask_def Let_def)
qed

theorem deleteTask_missing_id_no_write_witness:
  "list_all (\<lambda>t. \<not> has_id (Finite 9) t) (tasks three_tasks)
   \<and> deleteTask demo_platform (Finite 9) (three_tasks, storage_with (js ''[5]''))
       = (three_tasks, storage_with (js ''[5]''))"
proof -
  have h: "\<not> (\<exists>t\<in>set (tasks three_tasks). has_id (Finite 9) t)"
    by (simp add: three_tasks_def some_task_def has_id_def strict_eq_num_def)
  show ?thesis
    using h deleteTask_missing_id_no_write [OF h] by (simp add: list_all_iff)
qed

lemma same_tick_tasks:
  "tasks (fst same_tick) =
     [\<lparr>task_id = JNum (Finite 1577836800000), task_text = JStr (js ''Call home''),
       completed = JBool False, createdAt = TimeValue 1577836800000\<rparr>,
      \<lparr>task_id = JNum (Finite 1577836800000), task_text = JStr (js ''Buy milk''),
       completed = JBool False, createdAt = TimeValue 1577836800000\<rparr>]"
proof -
  have a: "trim (js ''Buy milk'') = js ''Buy milk''" "trim (js ''Call home'') = js ''Call home''"
    by (simp_all add: trim_def js_def is_whitespace_def)
  have b: "js ''Buy milk'' \<noteq> []" "js ''Call home'' \<noteq> []"
    by (simp_all add: js_def)
  show ?thesis
    by (simp add: same_tick_def addTask_def a b Let_def TaskModel_new_def empty_vm_def)
qed

text \<open>Where exactly one task has the id, \<open>deleteTask\<close> removes that task and no other.\<close>

lemma deleteTask_unique_id:
  assumes "length (filter (has_id i) (tasks vm)) = 1"
  shows "tasks (fst (deleteTask P i (vm, st))) = remove_first (has_id i) (tasks vm)"
    and "length (tasks (fst (deleteTask P i (vm, st)))) + 1 = length (tasks vm)"
proof -
  have a: "tasks (fst (deleteTask P i (vm, st))) = filter (\<lambda>t. \<not> has_id i t) (tasks vm)"
    by (simp add: deleteTask_def Let_def has_id_def)
  have b: "length (filter (has_id i) (tasks vm))
             + length (filter (\<lambda>t. \<not> has_id i t) (tasks vm)) = length (tasks vm)"
    by (rule sum_length_filter_compl)
  show "tasks (fst (deleteTask P i (vm, st))) = remove_first (has_id i) (tasks vm)"
    unfolding a using assms by (rule filter_single_remove_first)
  show "length (tasks (fst (deleteTask P i (vm, st)))) + 1 = length (tasks vm)"
    unfolding a using assms b by simp
qed

text \<open>
  Claim C2. Where a task has the given id, \<open>deleteTask\<close> removes the first task with
  that id, so that \<open>tasks\<close> gets shorter by exactly one and every other task stays. The
  code does not do this where two tasks share an id. Two tasks added within the same
  millisecond get the same id from \<open>Date.now()\<close>; \<open>deleteTask\<close> of that id then removes
  both of them and leaves \<open>tasks\<close> empty, where the removal of the first task with the id
  leaves the second.
\<close>

theorem deleteTask_same_id_removes_both:
  "length (tasks (fst same_tick)) = 2
   \<and> has_id (Finite 1577836800000) (tasks (fst same_tick) ! 0)
   \<and> tasks (fst (deleteTask demo_platform (Finite 1577836800000) same_tick)) = []
   \<and> remove_first (has_id (Finite 1577836800000)) (tasks (fst same_tick))
       = [tasks (fst same_tick) ! 1]"
proof -
  obtain vm st where s: "same_tick = (vm, st)" by (cases same_tick)
  have t: "tasks vm =
     [\<lparr>task_id = JNum (Finite 1577836800000), task_text = JStr (js ''Call home''),
       completed = JBool False, createdAt = TimeValue 1577836800000\<rparr>,
      \<lparr>task_id = JNum (Finite 1577836800000), task_text = JStr (js ''Buy milk''),
       completed = JBool False, createdAt = TimeValue 1577836800000\<rparr>]"
    using same_tick_tasks by (simp add: s)
  show ?thesis
    by (simp add: s t deleteTask_def Let_def has_id_def strict_eq_num_def)
qed

section \<open>Toggling\<close>

lemma find_first_Some:
  "find_first p xs = Some k \<Longrightarrow> k < length xs \<and> p (xs ! k)"
proof (induction xs arbitrary: k)
  case Nil
  then show ?case by simp
next
  case (Cons x xs)
  then show ?case by (auto split: if_splits)
qed

lemma find_first_exists:
  "\<exists>x\<in>set xs. p x \<Longrightarrow> \<exists>k. find_first p xs = Some k"
  by (induction xs) auto

lemma find_first_update:
  "find_first p xs = Some k \<Longrightarrow> p y \<Longrightarrow> find_first p (xs[k := y]) = Some k"
proof (induction xs arbitrary: k)
  case Nil
  then show ?case by simp
next
  case (Cons x xs)
  then show ?case by (auto split: if_splits)
qed

lemma toggle_back:
  assumes "is_boolean (completed t)"
  shows "t\<lparr>completed := JBool (\<not> truthy (JBool (\<not> truthy (completed t))))\<rparr> = t"
  using assms by (cases "completed t") (simp_all add: is_boolean_def)

lemma find_first_find:
  "List.find p xs = Some t \<Longrightarrow> \<exists>k. find_first p xs = Some k \<and> xs ! k = t"
proof (induction xs)
  case Nil
  then show ?case by simp
next
  case (Cons x xs)
  then show ?case by (cases "p x") auto
qed

section \<open>Serialization\<close>

lemma task_keys_distinct:
  "js ''id'' \<noteq> js ''text''" "js ''id'' \<noteq> js ''completed''" "js ''id'' \<noteq> js ''createdAt''"
  "js ''text'' \<noteq> js ''completed''" "js ''text'' \<noteq> js ''createdAt''"
  "js ''completed'' \<noteq> js ''createdAt''"
  by (simp_all add: js_def)

lemma get_prop_toJSON_object:
  fixes i t c d :: jsval
  defines "obj \<equiv> JObj [(js ''id'', i), (js ''text'', t), (js ''completed'', c),
                         (js ''createdAt'', d)]"
  shows "get_prop obj (js ''id'') = Inr i" "get_prop obj (js ''text'') = Inr t"
    "get_prop obj (js ''completed'') = Inr c" "get_prop obj (js ''createdAt'') = Inr d"
  using task_keys_distinct task_keys_distinct [symmetric]
  by (simp_all add: obj_def get_prop_def)

lemma TaskModel_new_same:
  "completed t \<noteq> JUndefined \<Longrightarrow>
     TaskModel_new (task_id t) (task_text t) (completed t) (createdAt t) = t"
  by (cases "completed t") (simp_all add: TaskModel_new_def)

text \<open>
  Claim C3. For every task with any id, any text, a completed flag and a millisecond
  timestamp \<open>createdAt\<close> (a valid date), \<open>fromJSON (toJSON t)\<close> is a task equal to \<open>t\<close> in
  all four fields; the timestamp comes back to the millisecond. The flag of a task is
  never \<open>undefined\<close>: the constructor replaces \<open>undefined\<close> by \<open>false\<close>.
\<close>

theorem toJSON_fromJSON_roundtrip:
  assumes flag: "completed t \<noteq> JUndefined"
    and stamp: "createdAt t = TimeValue tv"
    and range: "\<bar>tv\<bar> \<le> 8640000000000000"
  shows "try_bind (toJSON t) (fromJSON P) = Inr t"
proof -
  obtain iso where iso: "toISOString (TimeValue tv) = Inr iso"
    and parsed: "parse_iso iso = Some (TimeValue tv)"
    using parse_iso_toISOString [OF range] by blast
  have ser: "toJSON t = Inr (JObj [(js ''id'', task_id t), (js ''text'', task_text t),
                 (js ''completed'', completed t), (js ''createdAt'', JStr iso)])"
    by (simp add: toJSON_def stamp iso try_bind_def del: toISOString.simps)
  have date: "new_Date P (JStr iso) = Inr (createdAt t)"
    by (simp add: new_Date_def Date_parse_def parsed stamp)
  show ?thesis
    unfolding ser
    by (simp add: try_bind_def fromJSON_def get_prop_toJSON_object date
        TaskModel_new_same [OF flag])
qed

theorem toJSON_fromJSON_roundtrip_witness:
  "completed (some_task 3 ''Buy milk'' True) \<noteq> JUndefined
   \<and> createdAt (some_task 3 ''Buy milk'' True) = TimeValue 1577836800000
   \<and> \<bar>1577836800000 :: int\<bar> \<le> 8640000000000000
   \<and> toJSON (some_task 3 ''Buy milk'' True)
       = Inr (JObj [(js ''id'', JNum (Finite 3)), (js ''text'', JStr (js ''Buy milk'')),
                    (js ''completed'', JBool True),
                    (js ''createdAt'', JStr (js ''2020-01-01T00:00:00.000Z''))])
   \<and> try_bind (toJSON (some_task 3 ''Buy milk'' True)) (fromJSON demo_platform)
       = Inr (some_task 3 ''Buy milk'' True)"
proof -
  have h1: "completed (some_task 3 ''Buy milk'' True) \<noteq> JUndefined"
    and h2: "createdAt (some_task 3 ''Buy milk'' True) = TimeValue 1577836800000"
    by (simp_all add: some_task_def)
  have h3: "\<bar>1577836800000 :: int\<bar> \<le> 8640000000000000" by simp
  have iso: "toISOString (TimeValue 1577836800000) = Inr (js ''2020-01-01T00:00:00.000Z'')"
    by code_simp
  have ser: "toJSON (some_task 3 ''Buy milk'' True)
       = Inr (JObj [(js ''id'', JNum (Finite 3)), (js ''text'', JStr (js ''Buy milk'')),
                    (js ''completed'', JBool True),
                    (js ''createdAt'', JStr (js ''2020-01-01T00:00:00.000Z''))])"
    by (simp add: toJSON_def some_task_def iso try_bind_def del: toISOString.simps)
  show ?thesis
    using h1 h2 h3 ser toJSON_fromJSON_roundtrip [OF h1 h2 h3, of demo_platform]
    by simp
qed

section \<open>Loading\<close>

lemma fromJSON_null: "fromJSON P JNull = Inl TypeError"
  by (simp add: fromJSON_def get_prop_def try_bind_def)

lemma map_exn_null: "JNull \<in> set xs \<Longrightarrow> \<exists>e. map_exn (fromJSON P) xs = Inl e"
proof (induction xs)
  case Nil
  then show ?case by simp
next
  case (Cons x xs)
  show ?case
  proof (cases "fromJSON P x")
    case (Inl e)
    then show ?thesis by simp
  next
    case (Inr t)
    with Cons.prems have "JNull \<in> set xs" by (auto simp: fromJSON_null)
    with Cons.IH obtain e where "map_exn (fromJSON P) xs = Inl e" by blast
    with Inr show ?thesis by simp
  qed
qed

lemma loadTasks_try_rejected:
  assumes "blob_rejected P st \<or> \<not> getItem_ok P"
  shows "\<exists>e. loadTasks_try P vm st = Inl e"
proof (cases "getItem_ok P")
  case False
  then show ?thesis by (simp add: loadTasks_try_def)
next
  case True
  with assms obtain b where b: "item st = Some b" "b \<noteq> []"
    and r: "case JSON_parse P b of None \<Rightarrow> True | Some (JArr xs) \<Rightarrow> JNull \<in> set xs
            | Some v \<Rightarrow> True"
    by (auto simp: blob_rejected_def split: option.splits)
  show ?thesis
  proof (cases "JSON_parse P b")
    case None
    with True b show ?thesis by (simp add: loadTasks_try_def)
  next
    case (Some v)
    show ?thesis
    proof (cases v)
      case (JArr xs)
      with r Some have "JNull \<in> set xs" by simp
      then obtain e where "map_exn (fromJSON P) xs = Inl e"
        using map_exn_null by blast
      with True b Some JArr show ?thesis
        by (simp add: loadTasks_try_def try_bind_def)
    qed (use True b Some in \<open>simp_all add: loadTasks_try_def\<close>)
  qed
qed

lemma loadTasks_rejected:
  "blob_rejected P st \<or> \<not> getItem_ok P \<Longrightarrow> loadTasks P vm st = vm\<lparr>tasks := []\<rparr>"
  using loadTasks_try_rejected [of P st vm] by (auto simp: loadTasks_def)

lemma loadTasks_absent:
  "blob_absent st \<Longrightarrow> getItem_ok P \<Longrightarrow> loadTasks P vm st = vm"
  by (auto simp: loadTasks_def loadTasks_try_def blob_absent_def)

lemma constructor_nothing_loaded:
  assumes "blob_absent st \<or> blob_rejected P st \<or> \<not> getItem_ok P"
  shows "tasks (constructor P st) = []"
proof (cases "getItem_ok P \<and> blob_absent st")
  case True
  then show ?thesis by (simp add: constructor_def loadTasks_absent)
next
  case False
  with assms have "blob_rejected P st \<or> \<not> getItem_ok P" by blast
  then show ?thesis by (simp add: constructor_def loadTasks_rejected)
qed

text \<open>
  Claim C5, as stated: every stored text that cannot be parsed as the expected JSON
  array of task records leaves \<open>tasks\<close> empty. This fails for a text that is JSON for
  an array whose elements are not task records: \<open>[5]\<close> is loaded as one task with
  undefined fields, since \<open>fromJSON\<close> checks nothing and reading a property of a
  number throws nothing.
\<close>

theorem loadTasks_not_reset_counterexample:
  "\<not> expected_blob demo_platform (js ''[5]'')
   \<and> tasks (constructor demo_platform (storage_with (js ''[5]'')))
       = [\<lparr>task_id = JUndefined, task_text = JUndefined, completed = JBool False,
           createdAt = InvalidDate\<rparr>]"
proof -
  have p: "JSON_parse demo_platform (js ''[5]'') = Some (JArr [JNum (Finite 5)])"
    by (simp add: demo_platform_def demo_parse_def)
  have n: "js ''[5]'' \<noteq> []" by (simp add: js_def)
  have f: "fromJSON demo_platform (JNum (Finite 5))
             = Inr \<lparr>task_id = JUndefined, task_text = JUndefined, completed = JBool False,
                    createdAt = InvalidDate\<rparr>"
    by (simp add: fromJSON_def get_prop_def try_bind_def new_Date_def TaskModel_new_def)
  have g: "getItem_ok demo_platform" by (simp add: demo_platform_def)
  show ?thesis
    by (simp add: expected_blob_def p is_task_record_def constructor_def loadTasks_def
        loadTasks_try_def storage_with_def n f g try_bind_def)
qed

text \<open>
  Claim C5, amended. \<open>loadTasks\<close> always returns, and no exception escapes it: whatever
  the body of its try block throws, \<open>tasks\<close> is reset to the empty sequence. If the
  stored text is not JSON, or is JSON for a value that is not an array, or for an array
  that holds a \<open>null\<close>, or if the storage cannot be read, \<open>tasks\<close> is reset to the empty
  sequence. If the key is missing or holds the empty string, and the storage can be
  read, the view model is left as it is. In all these cases \<open>tasks\<close> is empty after
  the constructor.
\<close>

theorem loadTasks_rejected_or_absent:
  "(loadTasks_try P vm st = Inl e \<longrightarrow> loadTasks P vm st = vm\<lparr>tasks := []\<rparr>)
   \<and> (blob_rejected P st \<or> \<not> getItem_ok P \<longrightarrow> loadTasks P vm st = vm\<lparr>tasks := []\<rparr>)
   \<and> (blob_absent st \<and> getItem_ok P \<longrightarrow> loadTasks P vm st = vm)
   \<and> (blob_absent st \<or> blob_rejected P st \<or> \<not> getItem_ok P \<longrightarrow>
        tasks (constructor P st) = [])"
proof -
  have "loadTasks_try P vm st = Inl e \<longrightarrow> loadTasks P vm st = vm\<lparr>tasks := []\<rparr>"
    by (simp add: loadTasks_def)
  then show ?thesis
    using loadTasks_rejected [of P st vm] loadTasks_absent [of st P vm]
      constructor_nothing_loaded [of st P]
    by blast
qed

theorem loadTasks_rejected_or_absent_witness:
  "blob_rejected demo_platform (storage_with (js ''{oops''))
   \<and> loadTasks demo_platform three_tasks (storage_with (js ''{oops''))
       = three_tasks\<lparr>tasks := []\<rparr>
   \<and> blob_rejected demo_platform (storage_with (js ''[null]''))
   \<and> tasks (constructor demo_platform (storage_with (js ''[null]''))) = []
   \<and> blob_absent empty_storage \<and> getItem_ok demo_platform
   \<and> loadTasks demo_platform empty_vm empty_storage = empty_vm
   \<and> tasks (constructor (demo_platform\<lparr>getItem_ok := False\<rparr>) (storage_with blank_text_blob))
       = []"
proof -
  have h4: "\<not> getItem_ok (demo_platform\<lparr>getItem_ok := False\<rparr>)" by simp
  note d = loadTasks_rejected_or_absent [where P = "demo_platform\<lparr>getItem_ok := False\<rparr>"
      and vm = empty_vm and st = "storage_with blank_text_blob"]
  have h1: "blob_rejected demo_platform (storage_with (js ''{oops''))"
    by (simp add: blob_rejected_def storage_with_def demo_platform_def demo_parse_def
        blank_text_blob_def null_flag_blob_def js_def)
  have h2: "blob_rejected demo_platform (storage_with (js ''[null]''))"
    by (simp add: blob_rejected_def storage_with_def demo_platform_def demo_parse_def
        blank_text_blob_def null_flag_blob_def js_def)
  have h3: "blob_absent empty_storage" "getItem_ok demo_platform"
    by (simp_all add: blob_absent_def empty_storage_def demo_platform_def)
  note a = loadTasks_rejected_or_absent [where P = demo_platform and vm = three_tasks
      and st = "storage_with (js ''{oops'')"]
  note b = loadTasks_rejected_or_absent [where P = demo_platform and vm = empty_vm
      and st = "storage_with (js ''[null]'')"]
  note c = loadTasks_rejected_or_absent [where P = demo_platform and vm = empty_vm
      and st = empty_storage]
  show ?thesis
    using h1 h2 h3 h4 a b c d by blast
qed

section \<open>Toggling twice\<close>

lemma null_flag_vm_loaded:
  "null_flag_vm =
     \<lparr>tasks = [\<lparr>task_id = JNum (Finite 1), task_text = JStr (js ''Buy milk''),
                 completed = JNull, createdAt = TimeValue 1577836800000\<rparr>],
      currentFilter = JStr (js ''all'')\<rparr>"
proof -
  have ne: "null_flag_blob \<noteq> []" "null_flag_blob \<noteq> js ''[5]''"
    "null_flag_blob \<noteq> js ''[null]''" "null_flag_blob \<noteq> blank_text_blob"
    by (simp_all add: null_flag_blob_def blank_text_blob_def js_def)
  have p: "JSON_parse demo_platform null_flag_blob =
      Some (JArr [JObj [(js ''id'', JNum (Finite 1)), (js ''text'', JStr (js ''Buy milk'')),
                        (js ''completed'', JNull),
                        (js ''createdAt'', JStr (js ''2020-01-01T00:00:00.000Z''))]])"
    by (simp add: demo_platform_def demo_parse_def ne)
  have f: "fromJSON demo_platform
             (JObj [(js ''id'', JNum (Finite 1)), (js ''text'', JStr (js ''Buy milk'')),
                    (js ''completed'', JNull),
                    (js ''createdAt'', JStr (js ''2020-01-01T00:00:00.000Z''))])
           = Inr \<lparr>task_id = JNum (Finite 1), task_text = JStr (js ''Buy milk''),
                  completed = JNull, createdAt = TimeValue 1577836800000\<rparr>"
    by (simp add: fromJSON_def get_prop_toJSON_object try_bind_def new_Date_def
        Date_parse_def parse_iso_examples(1) TaskModel_new_def)
  have g: "getItem_ok demo_platform" by (simp add: demo_platform_def)
  show ?thesis
    by (simp add: null_flag_vm_def constructor_def loadTasks_def loadTasks_try_def
        storage_with_def ne p f g try_bind_def)
qed

text \<open>
  Claim C7, as stated: where a task has the given id, two calls of \<open>toggleTask\<close> in
  succession both return true and bring \<open>tasks\<close> back to what it was. The second part
  fails for a task whose flag is not a boolean, which the constructor loads from a
  stored record as it is: with \<open>completed: null\<close> the first call writes \<open>true\<close> and the
  second \<open>false\<close>, not \<open>null\<close>.
\<close>

theorem toggleTask_twice_counterexample:
  "map completed (tasks null_flag_vm) = [JNull]
   \<and> has_id (Finite 1) (tasks null_flag_vm ! 0)
   \<and> fst toggled_once
   \<and> map completed (tasks (fst (snd toggled_once))) = [JBool True]
   \<and> fst toggled_twice
   \<and> map completed (tasks (fst (snd toggled_twice))) = [JBool False]
   \<and> tasks (fst (snd toggled_twice)) \<noteq> tasks null_flag_vm"
proof -
  have a: "toggled_once =
      (True,
       \<lparr>tasks = [\<lparr>task_id = JNum (Finite 1), task_text = JStr (js ''Buy milk''),
                 completed = JBool True, createdAt = TimeValue 1577836800000\<rparr>],
        currentFilter = JStr (js ''all'')\<rparr>,
       saveTasks demo_platform
         \<lparr>tasks = [\<lparr>task_id = JNum (Finite 1), task_text = JStr (js ''Buy milk''),
                 completed = JBool True, createdAt = TimeValue 1577836800000\<rparr>],
          currentFilter = JStr (js ''all'')\<rparr>
         (storage_with null_flag_blob))"
    by (simp add: toggled_once_def null_flag_vm_loaded toggleTask_def strict_eq_num_def Let_def)
  have b: "fst toggled_twice"
    "tasks (fst (snd toggled_twice)) =
       [\<lparr>task_id = JNum (Finite 1), task_text = JStr (js ''Buy milk''),
         completed = JBool False, createdAt = TimeValue 1577836800000\<rparr>]"
    by (simp_all add: toggled_twice_def a toggleTask_def strict_eq_num_def Let_def)
  show ?thesis
    by (simp add: a b null_flag_vm_loaded has_id_def strict_eq_num_def)
qed

text \<open>A state holds a task with the given id exactly when \<open>find\<close> returns a task.\<close>

lemma find_has_id:
  "(\<exists>t\<in>set xs. has_id i t) \<longleftrightarrow> (\<exists>t. List.find (has_id i) xs = Some t)"
  by (induction xs) auto

text \<open>
  Claim C7, amended. For every state that holds a task with the given id, two calls of
  \<open>toggleTask\<close> in succession both return true; and when the flag of the first task
  with that id, the task that \<open>find\<close> returns, is a boolean, the view model after them,
  and so that flag and the whole sequence \<open>tasks\<close>, is what it was before the first
  call.
\<close>

theorem toggleTask_twice:
  assumes found: "List.find (has_id i) (tasks vm) = Some t"
  shows "let r1 = toggleTask P i (vm, st); r2 = toggleTask P i (snd r1)
         in fst r1 \<and> fst r2 \<and> (is_boolean (completed t) \<longrightarrow> fst (snd r2) = vm)"
proof -
  let ?p = "\<lambda>t. strict_eq_num (task_id t) i"
  have p: "has_id i = ?p" by (rule ext) (simp add: has_id_def)
  from found obtain k where k: "find_first ?p (tasks vm) = Some k" and kt: "tasks vm ! k = t"
    using find_first_find [of ?p "tasks vm" t] by (auto simp: p)
  then have kl: "k < length (tasks vm)" and kp: "?p (tasks vm ! k)"
    using find_first_Some [OF k] by simp_all
  let ?t' = "t\<lparr>completed := JBool (\<not> truthy (completed t))\<rparr>"
  let ?vm1 = "vm\<lparr>tasks := (tasks vm)[k := ?t']\<rparr>"
  let ?t'' = "?t'\<lparr>completed := JBool (\<not> truthy (completed ?t'))\<rparr>"
  let ?vm2 = "?vm1\<lparr>tasks := (tasks ?vm1)[k := ?t'']\<rparr>"
  have r1: "toggleTask P i (vm, st) = (True, ?vm1, saveTasks P ?vm1 st)"
    using k kt by (simp add: toggleTask_def Let_def)
  have k1: "find_first ?p (tasks ?vm1) = Some k"
    using find_first_update [OF k, of ?t'] kp kt by simp
  have n1: "tasks ?vm1 ! k = ?t'" using kl by simp
  have r2: "toggleTask P i (?vm1, saveTasks P ?vm1 st)
              = (True, ?vm2, saveTasks P ?vm2 (saveTasks P ?vm1 st))"
    using k1 n1 by (simp add: toggleTask_def Let_def del: list_update_overwrite)
  have restored: "?vm2 = vm" if "is_boolean (completed t)"
  proof -
    have "?t'' = t" using toggle_back [OF that] by simp
    then have "(tasks ?vm1)[k := ?t''] = tasks vm"
      using kl kt by (simp add: list_update_same_conv)
    then show ?thesis by simp
  qed
  show ?thesis
    using restored by (simp add: r1 r2 Let_def del: list_update_overwrite)
qed

theorem toggleTask_twice_witness:
  "List.find (has_id (Finite 2)) (tasks three_tasks) = Some (some_task 2 ''Call home'' True)
   \<and> is_boolean (completed (some_task 2 ''Call home'' True))
   \<and> fst (toggleTask demo_platform (Finite 2) (three_tasks, empty_storage))
   \<and> completed (tasks (fst (snd (toggleTask demo_platform (Finite 2)
                   (three_tasks, empty_storage)))) ! 1) = JBool False
   \<and> fst (toggleTask demo_platform (Finite 2)
            (snd (toggleTask demo_platform (Finite 2) (three_tasks, empty_storage))))
   \<and> fst (snd (toggleTask demo_platform (Finite 2)
            (snd (toggleTask demo_platform (Finite 2) (three_tasks, empty_storage)))))
       = three_tasks"
proof -
  have h1: "List.find (has_id (Finite 2)) (tasks three_tasks)
              = Some (some_task 2 ''Call home'' True)"
    by (simp add: three_tasks_def some_task_def has_id_def strict_eq_num_def)
  have h2: "is_boolean (completed (some_task 2 ''Call home'' True))"
    by (simp add: some_task_def is_boolean_def)
  have b: "completed (tasks (fst (snd (toggleTask demo_platform (Finite 2)
                   (three_tasks, empty_storage)))) ! 1) = JBool False"
    by (simp add: toggleTask_def three_tasks_def some_task_def strict_eq_num_def Let_def)
  show ?thesis
    using h1 h2 b toggleTask_twice [OF h1, of demo_platform empty_storage]
    by (simp add: Let_def)
qed

section \<open>The texts of the tasks\<close>

lemma dropWhile_keeps: "xs \<noteq> [] \<Longrightarrow> \<not> p (hd xs) \<Longrightarrow> dropWhile p xs = xs"
  by (cases xs) simp_all

lemma last_dropWhile: "dropWhile p xs \<noteq> [] \<Longrightarrow> last (dropWhile p xs) = last xs"
proof -
  assume ne: "dropWhile p xs \<noteq> []"
  have "xs = takeWhile p xs @ dropWhile p xs" by simp
  then have "last xs = last (takeWhile p xs @ dropWhile p xs)" by simp
  also have "\<dots> = last (dropWhile p xs)" using ne by (rule last_appendR)
  finally show ?thesis by simp
qed

lemma trim_idem: "trim (trim s) = trim s"
proof (cases "trim s = []")
  case True
  have "trim [] = []" by (simp add: trim_def)
  with True show ?thesis by simp
next
  case False
  let ?a = "dropWhile is_whitespace s"
  let ?b = "dropWhile is_whitespace (rev ?a)"
  have u: "trim s = rev ?b" by (simp add: trim_def)
  from False have b: "?b \<noteq> []" by (simp add: u)
  have a: "?a \<noteq> []"
  proof
    assume e: "?a = []"
    have "?b = []" unfolding e by simp
    with b show False by blast
  qed
  have hb: "\<not> is_whitespace (hd ?b)" using b by (rule hd_dropWhile)
  have ha: "\<not> is_whitespace (hd ?a)" using a by (rule hd_dropWhile)
  have "last ?b = last (rev ?a)" using b by (rule last_dropWhile)
  then have "hd (rev ?b) = hd ?a" using a b by (simp add: hd_rev last_rev)
  with ha have "dropWhile is_whitespace (rev ?b) = rev ?b"
    using b by (intro dropWhile_keeps) simp_all
  moreover have "dropWhile is_whitespace ?b = ?b"
    using b hb by (rule dropWhile_keeps)
  ultimately show ?thesis by (simp add: trim_def)
qed

lemma nonblank_trim: "trim txt \<noteq> [] \<Longrightarrow> nonblank (JStr (trim txt))"
  by (simp add: nonblank_def trim_idem)

lemma addTask_texts:
  "texts_nonblank vm \<Longrightarrow> texts_nonblank (fst (snd (addTask P now created txt (vm, st))))"
  by (simp add: addTask_def texts_nonblank_def Let_def TaskModel_new_def nonblank_trim)

lemma toggleTask_texts:
  assumes "texts_nonblank vm"
  shows "texts_nonblank (fst (snd (toggleTask P i (vm, st))))"
proof (cases "find_first (\<lambda>t. strict_eq_num (task_id t) i) (tasks vm)")
  case None
  with assms show ?thesis by (simp add: toggleTask_def)
next
  case (Some k)
  let ?t = "(tasks vm ! k)\<lparr>completed := JBool (\<not> truthy (completed (tasks vm ! k)))\<rparr>"
  from find_first_Some [OF Some] have k: "k < length (tasks vm)" by simp
  with assms have "nonblank (task_text ?t)"
    by (simp add: texts_nonblank_def list_all_length)
  with assms have "list_all (\<lambda>t. nonblank (task_text t)) ((tasks vm)[k := ?t])"
    unfolding texts_nonblank_def list_all_iff
    using set_update_subset_insert [of "tasks vm" k ?t] by auto
  with Some show ?thesis by (simp add: toggleTask_def Let_def texts_nonblank_def)
qed

lemma deleteTask_texts:
  "texts_nonblank vm \<Longrightarrow> texts_nonblank (fst (deleteTask P i (vm, st)))"
  by (simp add: deleteTask_def Let_def texts_nonblank_def list_all_iff)

text \<open>
  Claim C6, as stated: in every state that can be reached, also after loading an
  arbitrary stored text, every task has a text that is not empty after trimming. This
  fails after loading a record whose text is blank: \<open>fromJSON\<close> takes the text as it is.
\<close>

theorem texts_nonblank_counterexample:
  "reachable demo_platform any_storage
     (constructor demo_platform (storage_with blank_text_blob), storage_with blank_text_blob)
   \<and> map task_text (tasks (constructor demo_platform (storage_with blank_text_blob)))
       = [JStr (js '' '')]
   \<and> trim (js '' '') = []
   \<and> \<not> texts_nonblank (constructor demo_platform (storage_with blank_text_blob))"
proof -
  have r: "reachable demo_platform any_storage
     (constructor demo_platform (storage_with blank_text_blob), storage_with blank_text_blob)"
    by (intro reachable.started) (simp add: any_storage_def)
  have ne: "blank_text_blob \<noteq> []" "blank_text_blob \<noteq> js ''[5]''"
    "blank_text_blob \<noteq> js ''[null]''"
    by (simp_all add: blank_text_blob_def js_def)
  have p: "JSON_parse demo_platform blank_text_blob =
      Some (JArr [JObj [(js ''id'', JNum (Finite 1)), (js ''text'', JStr (js '' '')),
                        (js ''completed'', JBool False),
                        (js ''createdAt'', JStr (js ''2020-01-01T00:00:00.000Z''))]])"
    by (simp add: demo_platform_def demo_parse_def ne)
  have d: "parse_iso (js ''2020-01-01T00:00:00.000Z'') = Some (TimeValue 1577836800000)"
    by code_simp
  have f: "fromJSON demo_platform
             (JObj [(js ''id'', JNum (Finite 1)), (js ''text'', JStr (js '' '')),
                    (js ''completed'', JBool False),
                    (js ''createdAt'', JStr (js ''2020-01-01T00:00:00.000Z''))])
           = Inr \<lparr>task_id = JNum (Finite 1), task_text = JStr (js '' ''),
                  completed = JBool False, createdAt = TimeValue 1577836800000\<rparr>"
    by (simp add: fromJSON_def get_prop_toJSON_object try_bind_def new_Date_def
        Date_parse_def d TaskModel_new_def)
  have g: "getItem_ok demo_platform" by (simp add: demo_platform_def)
  have c: "tasks (constructor demo_platform (storage_with blank_text_blob))
             = [\<lparr>task_id = JNum (Finite 1), task_text = JStr (js '' ''),
                  completed = JBool False, createdAt = TimeValue 1577836800000\<rparr>]"
    by (simp add: constructor_def loadTasks_def loadTasks_try_def storage_with_def ne p f g
        try_bind_def)
  have t: "trim (js '' '') = []"
    by (simp add: trim_def js_def is_whitespace_def)
  show ?thesis
    using r by (simp add: c t texts_nonblank_def nonblank_def)
qed

text \<open>
  Claim C6, amended. In every state reached by any sequence of \<open>addTask\<close>,
  \<open>toggleTask\<close>, \<open>deleteTask\<close>, \<open>setFilter\<close> and \<open>clearAllTasks\<close> from a constructor that
  has loaded only tasks with a text that is a string and is not empty after trimming,
  every task has a text that is a string and is not empty after trimming. The
  constructor loads only such tasks, namely none, when the key is missing or holds
  the empty string, when the stored text is not JSON, or is JSON for a value that is
  not an array or for an array that holds a \<open>null\<close>, and when the storage cannot be
  read.
\<close>

theorem texts_nonblank_invariant:
  "(reachable P (loads_nonblank P) s \<longrightarrow> texts_nonblank (fst s))
   \<and> (blob_absent st \<or> blob_rejected P st \<or> \<not> getItem_ok P \<longrightarrow> loads_nonblank P st)"
proof
  show "reachable P (loads_nonblank P) s \<longrightarrow> texts_nonblank (fst s)"
  proof
    assume "reachable P (loads_nonblank P) s"
    then show "texts_nonblank (fst s)"
    proof (induction rule: reachable.induct)
      case (started st)
      then show ?case by (simp add: loads_nonblank_def)
    next
      case (added s now created raw)
      then show ?case using addTask_texts [of "fst s" P now created raw "snd s"] by simp
    next
      case (toggled s i)
      then show ?case using toggleTask_texts [of "fst s" P i "snd s"] by simp
    next
      case (deleted s i)
      then show ?case using deleteTask_texts [of "fst s" P i "snd s"] by simp
    next
      case (filtered vm st f)
      then show ?case by (simp add: setFilter_def texts_nonblank_def)
    next
      case (cleared s)
      then show ?case
        by (simp add: clearAllTasks_def texts_nonblank_def Let_def split: prod.splits)
    qed
  qed
  show "blob_absent st \<or> blob_rejected P st \<or> \<not> getItem_ok P \<longrightarrow> loads_nonblank P st"
    using constructor_nothing_loaded [of st P]
    by (auto simp: loads_nonblank_def texts_nonblank_def)
qed

theorem texts_nonblank_invariant_witness:
  "loads_nonblank demo_platform (storage_with null_flag_blob)
   \<and> reachable demo_platform (loads_nonblank demo_platform) after_one_add
   \<and> texts_nonblank (fst after_one_add)
   \<and> map task_text (tasks (fst after_one_add))
       = [JStr (js ''Call home''), JStr (js ''Buy milk'')]
   \<and> blob_rejected demo_platform (storage_with (js ''[null]''))
   \<and> loads_nonblank demo_platform (storage_with (js ''[null]''))"
proof -
  have c: "constructor demo_platform (storage_with null_flag_blob) =
     \<lparr>tasks = [\<lparr>task_id = JNum (Finite 1), task_text = JStr (js ''Buy milk''),
                 completed = JNull, createdAt = TimeValue 1577836800000\<rparr>],
      currentFilter = JStr (js ''all'')\<rparr>"
    using null_flag_vm_loaded by (simp add: null_flag_vm_def)
  have t: "trim (js '' Call home'') = js ''Call home''" "trim (js ''Buy milk'') = js ''Buy milk''"
    by (simp_all add: trim_def js_def is_whitespace_def)
  have n: "js '' Call home'' \<noteq> []" "js ''Call home'' \<noteq> []" "js ''Buy milk'' \<noteq> []"
    by (simp_all add: js_def)
  have l: "loads_nonblank demo_platform (storage_with null_flag_blob)"
    by (simp add: loads_nonblank_def texts_nonblank_def c nonblank_def t n)
  then have r: "reachable demo_platform (loads_nonblank demo_platform) after_one_add"
    unfolding after_one_add_def by (intro reachable.added reachable.started)
  have m: "map task_text (tasks (fst after_one_add))
             = [JStr (js ''Call home''), JStr (js ''Buy milk'')]"
    by (simp add: after_one_add_def c addTask_def t n Let_def TaskModel_new_def)
  have h: "blob_rejected demo_platform (storage_with (js ''[null]''))"
    by (simp add: blob_rejected_def storage_with_def demo_platform_def demo_parse_def js_def)
  note a = texts_nonblank_invariant [where P = demo_platform and s = after_one_add
      and st = "storage_with (js ''[null]'')"]
  show ?thesis
    using l r m h a [THEN conjunct1, THEN mp, OF r] a [THEN conjunct2] by blast
qed

end
